theory Spec2Isabelle
  imports Complex_Main "HOL-Library.Word"
begin

unbundle bit_operations_syntax

section \<open>Data model of QSurfaceTexture.cpp\<close>

subsection \<open>Scalars\<close>

text \<open>
  \<open>GLuint\<close> is a 32-bit unsigned integer. A \<open>float\<close> / \<open>jfloat\<close> is kept as its
  IEEE-754 binary32 bit pattern, so that copying is exact and \<open>==\<close> on floats can be
  written out on the bits. \<open>jlong\<close> is 64 bits.
\<close>

type_synonym GLuint = "32 word"
type_synonym jfloat = "32 word"
type_synonym jlong = "64 word"

text \<open>A binary32 value is a NaN when its exponent bits are all ones and its fraction is not zero.\<close>

definition isnan :: "jfloat \<Rightarrow> bool" where
  "isnan f \<longleftrightarrow> f AND 0x7F800000 = 0x7F800000 \<and> f AND 0x007FFFFF \<noteq> 0"

text \<open>Both zeros, \<open>+0.0\<close> (\<open>0x00000000\<close>) and \<open>-0.0\<close> (\<open>0x80000000\<close>).\<close>

definition iszero :: "jfloat \<Rightarrow> bool" where
  "iszero f \<longleftrightarrow> f AND 0x7FFFFFFF = 0"

text \<open>
  The C++ operator \<open>==\<close> on two floats: false when either side is a NaN, true on two
  zeros of any sign, and equality of the bit patterns otherwise.
\<close>

definition float_eq :: "jfloat \<Rightarrow> jfloat \<Rightarrow> bool" where
  "float_eq a b \<longleftrightarrow> \<not> isnan a \<and> \<not> isnan b \<and> (a = b \<or> (iszero a \<and> iszero b))"

subsection \<open>QMatrix4x4\<close>

text \<open>
  \<open>QMatrix4x4\<close> holds \<open>float m[4][4]\<close>; \<open>data()\<close> exposes the 16 floats in storage
  order. The model is the list of these 16 floats. \<open>QMatrix4x4()\<close> is the identity;
  \<open>operator==\<close> compares the 16 entries pairwise with the float \<open>==\<close>.
\<close>

type_synonym QMatrix4x4 = "jfloat list"

definition float_one :: jfloat where
  "float_one = 0x3F800000"

definition QMatrix4x4_identity :: QMatrix4x4 where
  "QMatrix4x4_identity =
     [float_one, 0, 0, 0,  0, float_one, 0, 0,  0, 0, float_one, 0,  0, 0, 0, float_one]"

definition QMatrix4x4_eq :: "QMatrix4x4 \<Rightarrow> QMatrix4x4 \<Rightarrow> bool" where
  "QMatrix4x4_eq a b = list_all2 float_eq a b"

subsection \<open>struct State\<close>

record State =
  uSTMatrix :: QMatrix4x4
  textureId :: GLuint

definition State_default :: State where
  "State_default = \<lparr>uSTMatrix = QMatrix4x4_identity, textureId = 0\<rparr>"

text \<open>\<open>State::compare\<close>, lines 13-16.\<close>

definition State_compare :: "State \<Rightarrow> State \<Rightarrow> int" where
  "State_compare s other =
     (if QMatrix4x4_eq (uSTMatrix s) (uSTMatrix other) \<and> textureId s = textureId other
      then 0 else - 1)"

subsection \<open>Floating-point arithmetic\<close>

text \<open>
  \<open>qreal\<close> is a binary64 double and the vertices of the quad are binary32 floats. A
  finite floating-point value is modelled as the real number it denotes, and every
  arithmetic operation and every conversion rounds its exact result to the format: to
  the nearest value, ties to the even significand.

  \<open>nearest_even\<close> rounds a nonnegative real to an integer that way. \<open>ieee_round p emin\<close>
  rounds into the format with \<open>p\<close> significand bits and least exponent \<open>emin\<close>: the
  spacing of the format around \<open>x\<close> is \<open>ulp\<close>, and sign and magnitude are treated apart.
  A result at or beyond the largest finite magnitude is infinite in the code; such
  values are outside the model, and \<open>is_double\<close> and \<open>narrows\<close> keep them out.
\<close>

definition nearest_even :: "real \<Rightarrow> int" where
  "nearest_even x =
     (let f = \<lfloor>x\<rfloor>; d = x - of_int f
      in if d < 1 / 2 then f else if 1 / 2 < d then f + 1 else if even f then f else f + 1)"

definition ieee_round :: "nat \<Rightarrow> int \<Rightarrow> real \<Rightarrow> real" where
  "ieee_round p emin x =
     (if x = 0 then 0
      else (let e = max emin \<lfloor>log 2 \<bar>x\<bar>\<rfloor>;
                ulp = 2 powr (of_int e - of_nat p + 1)
            in sgn x * (of_int (nearest_even (\<bar>x\<bar> / ulp)) * ulp)))"

text \<open>Conversion to \<open>float\<close> (24 significand bits) and rounding of a double result (53 bits).\<close>

definition to_float :: "real \<Rightarrow> real" where
  "to_float x = ieee_round 24 (- 126) x"

definition to_double :: "real \<Rightarrow> real" where
  "to_double x = ieee_round 53 (- 1022) x"

text \<open>\<open>x\<close> is a finite double; \<open>x\<close> converts to a finite float.\<close>

definition is_double :: "real \<Rightarrow> bool" where
  "is_double x \<longleftrightarrow> to_double x = x \<and> \<bar>x\<bar> < 2 ^ 1024"

definition narrows :: "real \<Rightarrow> bool" where
  "narrows x \<longleftrightarrow> \<bar>to_float x\<bar> < 2 ^ 128"

subsection \<open>Geometry\<close>

text \<open>
  \<open>QRectF\<close> stores \<open>xp, yp, w, h\<close> as \<open>qreal\<close>; \<open>right()\<close> is \<open>xp + w\<close> and
  \<open>bottom()\<close> is \<open>yp + h\<close>, computed in double.
\<close>

record QRectF =
  rect_xp :: real
  rect_yp :: real
  rect_w :: real
  rect_h :: real

definition rect_left :: "QRectF \<Rightarrow> real" where
  "rect_left r = rect_xp r"

definition rect_top :: "QRectF \<Rightarrow> real" where
  "rect_top r = rect_yp r"

definition rect_right :: "QRectF \<Rightarrow> real" where
  "rect_right r = to_double (rect_xp r + rect_w r)"

definition rect_bottom :: "QRectF \<Rightarrow> real" where
  "rect_bottom r = to_double (rect_yp r + rect_h r)"

text \<open>\<open>QRectF::setTop(pos)\<close>: \<open>diff = pos - yp; yp += diff; h -= diff\<close>.\<close>

definition setTop :: "real \<Rightarrow> QRectF \<Rightarrow> QRectF" where
  "setTop pos r = (let diff = to_double (pos - rect_yp r)
                   in r\<lparr>rect_yp := to_double (rect_yp r + diff),
                        rect_h := to_double (rect_h r - diff)\<rparr>)"

text \<open>\<open>QRectF::setBottom(pos)\<close>: \<open>h = pos - yp\<close>.\<close>

definition setBottom :: "real \<Rightarrow> QRectF \<Rightarrow> QRectF" where
  "setBottom pos r = r\<lparr>rect_h := to_double (pos - rect_yp r)\<rparr>"

text \<open>\<open>QRectF(0, 0, 1, 1)\<close>, the whole texture.\<close>

definition unit_rect :: QRectF where
  "unit_rect = \<lparr>rect_xp = 0, rect_yp = 0, rect_w = 1, rect_h = 1\<rparr>"

text \<open>
  \<open>QQuickItem::boundingRect()\<close> of an item of the given width and height (two
  doubles): \<open>QRectF(0, 0, width, height)\<close>.
\<close>

definition QQuickItem_boundingRect :: "real \<Rightarrow> real \<Rightarrow> QRectF" where
  "QQuickItem_boundingRect width height =
     \<lparr>rect_xp = 0, rect_yp = 0, rect_w = width, rect_h = height\<rparr>"

text \<open>\<open>QSGGeometry::TexturedPoint2D\<close>: a position and a texture coordinate, four floats.\<close>

record TexturedPoint2D =
  vx :: real
  vy :: real
  vtx :: real
  vty :: real

text \<open>
  \<open>QSGGeometry::updateTexturedRectGeometry(g, rect, textureRect)\<close> writes the four
  vertices of \<open>g\<close>: top-left, bottom-left, top-right, bottom-right of \<open>rect\<close>, each with
  the same corner of \<open>textureRect\<close>, every coordinate converted from double to float.
\<close>

definition updateTexturedRectGeometry :: "QRectF \<Rightarrow> QRectF \<Rightarrow> TexturedPoint2D list" where
  "updateTexturedRectGeometry rect textureRect =
     [\<lparr>vx = to_float (rect_left rect), vy = to_float (rect_top rect),
       vtx = to_float (rect_left textureRect), vty = to_float (rect_top textureRect)\<rparr>,
      \<lparr>vx = to_float (rect_left rect), vy = to_float (rect_bottom rect),
       vtx = to_float (rect_left textureRect), vty = to_float (rect_bottom textureRect)\<rparr>,
      \<lparr>vx = to_float (rect_right rect), vy = to_float (rect_top rect),
       vtx = to_float (rect_right textureRect), vty = to_float (rect_top textureRect)\<rparr>,
      \<lparr>vx = to_float (rect_right rect), vy = to_float (rect_bottom rect),
       vtx = to_float (rect_right textureRect), vty = to_float (rect_bottom textureRect)\<rparr>]"

subsection \<open>The outside world\<close>

text \<open>
  Every call that leaves the program (OpenGL, JNI, the Java \<open>SurfaceTexture\<close>, the scene
  graph, the signal) is recorded in a trace, in the order the calls are made. The
  queued \<open>update\<close> invocations posted by the frame-available callback are kept apart,
  in posting order.
\<close>

datatype gl_enum =
  GL_TEXTURE_EXTERNAL_OES | GL_TEXTURE_2D | GL_TEXTURE_MIN_FILTER | GL_TEXTURE_MAG_FILTER
  | GL_NEAREST | GL_TEXTURE0

datatype DirtyStateBit = DirtyGeometry | DirtyMaterial

datatype event =
    GlGenTextures GLuint
  | GlBindTexture gl_enum GLuint
  | GlTexParameterf gl_enum gl_enum gl_enum
  | GlDisable gl_enum
  | GlEnable gl_enum
  | GlActiveTexture gl_enum
  | GlDeleteTextures GLuint
  | NewSurfaceTexture GLuint
  | SetOnFrameAvailableListener jlong
  | NewGlobalRef
  | DeleteGlobalRef
  | EmitSurfaceTextureChanged
  | UpdateTexImage
  | GetTransformMatrix
  | MarkDirty "DirtyStateBit set"
  | SetUniformValue int QMatrix4x4

record world =
  trace :: "event list"
  queued :: "jlong list"

definition emit :: "event list \<Rightarrow> world \<Rightarrow> world" where
  "emit es w = w\<lparr>trace := trace w @ es\<rparr>"

text \<open>The Java object created at line 196, bound to the texture name given to its constructor.\<close>

datatype jobject = SurfaceTextureObj GLuint

subsection \<open>class SurfaceTextureNode\<close>

record SurfaceTextureNode =
  material :: "State option"
  m_surfaceTexture :: "jobject option"
  m_geometry :: "TexturedPoint2D list"
  m_uSTMatrixArray :: "jfloat list"
  m_textureId :: GLuint
  usePreprocess :: bool
  ownsMaterial :: bool
  blending :: bool

text \<open>
  The constructor, lines 74-105. The material is created with a default \<open>State\<close> whose
  texture id is then set; the Java \<open>float[16]\<close> (all zero when new) is kept through a
  global reference. The four vertices are allocated here and written by
  \<open>updatePaintNode\<close> before anything reads them.
\<close>

definition SurfaceTextureNode_new ::
  "jobject option \<Rightarrow> GLuint \<Rightarrow> world \<Rightarrow> SurfaceTextureNode \<times> world" where
  "SurfaceTextureNode_new surfaceTexture tid w =
     (\<lparr>material = Some (State_default\<lparr>textureId := tid\<rparr>),
       m_surfaceTexture = surfaceTexture,
       m_geometry = replicate 4 \<lparr>vx = 0, vy = 0, vtx = 0, vty = 0\<rparr>,
       m_uSTMatrixArray = replicate 16 0,
       m_textureId = tid,
       usePreprocess = True,
       ownsMaterial = True,
       blending = True\<rparr>,
      emit [NewGlobalRef] w)"

text \<open>The destructor, lines 107-111.\<close>

definition SurfaceTextureNode_delete :: "SurfaceTextureNode \<Rightarrow> world \<Rightarrow> world" where
  "SurfaceTextureNode_delete n w = emit [DeleteGlobalRef] w"

text \<open>
  \<open>SurfaceTexture.getTransformMatrix(float[] mtx)\<close> stores the producer's current
  transform \<open>T\<close> in a 16-element array and rejects any other array.
\<close>

definition getTransformMatrix :: "QMatrix4x4 \<Rightarrow> jfloat list \<Rightarrow> jfloat list" where
  "getTransformMatrix T mtx = (if length mtx = 16 then T else mtx)"

text \<open>
  JNI \<open>GetFloatArrayRegion(array, start, len, buf)\<close> copies \<open>len\<close> elements from index
  \<open>start\<close> into the front of \<open>buf\<close>; when the region is not inside the array it
  raises a Java exception and copies nothing.
\<close>

definition GetFloatArrayRegion ::
  "jfloat list \<Rightarrow> nat \<Rightarrow> nat \<Rightarrow> jfloat list \<Rightarrow> jfloat list" where
  "GetFloatArrayRegion array start len buf =
     (if start + len \<le> length array then take len (drop start array) @ drop len buf else buf)"

text \<open>
  \<open>SurfaceTextureNode::preprocess\<close>, lines 128-152. \<open>T\<close> is the transform the producer
  reports for the frame that \<open>updateTexImage\<close> latches.
\<close>

definition preprocess ::
  "QMatrix4x4 \<Rightarrow> SurfaceTextureNode \<Rightarrow> world \<Rightarrow> SurfaceTextureNode \<times> world" where
  "preprocess T n w =
     (case material n of
        None \<Rightarrow> (n, w)
      | Some mat \<Rightarrow>
          (let w1 = emit [UpdateTexImage] w;
               arr = getTransformMatrix T (m_uSTMatrixArray n);
               w2 = emit [GetTransformMatrix] w1;
               mat' = mat\<lparr>uSTMatrix := GetFloatArrayRegion arr 0 16 (uSTMatrix mat)\<rparr>
           in (n\<lparr>material := Some mat', m_uSTMatrixArray := arr\<rparr>, w2)))"

subsection \<open>class SurfaceTextureShader\<close>

text \<open>\<open>updateState\<close>, lines 54-59: what the draw call uploads and binds.\<close>

definition updateState :: "int \<Rightarrow> State \<Rightarrow> world \<Rightarrow> world" where
  "updateState m_uSTMatrixLoc state w =
     emit [SetUniformValue m_uSTMatrixLoc (uSTMatrix state),
           GlActiveTexture GL_TEXTURE0,
           GlBindTexture GL_TEXTURE_EXTERNAL_OES (textureId state)] w"

subsection \<open>class QSurfaceTexture\<close>

text \<open>
  The item: its address, the two members the source uses, and the rectangle that
  \<open>boundingRect()\<close> returns for it, which \<open>QQuickItem\<close> computes as
  \<open>QRectF(0, 0, width, height)\<close>.
\<close>

record QSurfaceTexture =
  this_ptr :: jlong
  mTextureId :: GLuint
  mSurfaceTexture :: "jobject option"
  boundingRect :: QRectF

text \<open>
  The constructor, lines 154-159. Modelled from the spec: the header QSurfaceTexture.h,
  which declares the members and their initial values, is missing; the texture id of an
  item that has not been painted is zero and its producer handle is not valid.
\<close>

definition QSurfaceTexture_new :: "jlong \<Rightarrow> QRectF \<Rightarrow> QSurfaceTexture" where
  "QSurfaceTexture_new ptr r =
     \<lparr>this_ptr = ptr, mTextureId = 0, mSurfaceTexture = None, boundingRect = r\<rparr>"

text \<open>The destructor, lines 161-168.\<close>

definition QSurfaceTexture_delete :: "QSurfaceTexture \<Rightarrow> world \<Rightarrow> world" where
  "QSurfaceTexture_delete item w =
     (if mTextureId item \<noteq> 0
      then emit [GlBindTexture GL_TEXTURE_EXTERNAL_OES 0, GlDeleteTextures (mTextureId item)] w
      else w)"

text \<open>
  Lines 212-215. \<open>tmp\<close> is a \<open>float\<close>: the top of the rectangle is converted to
  float when it is saved, and converted back (exactly) when it becomes the new bottom.
\<close>

definition flip_vertical :: "QRectF \<Rightarrow> QRectF" where
  "flip_vertical rect = (let tmp = to_float (rect_top rect);
                             rect1 = setTop (rect_bottom rect) rect
                         in setBottom tmp rect1)"

text \<open>
  Lines 176-209, the branch taken when no node is passed in. \<open>fresh\<close> is the name that
  \<open>glGenTextures\<close> writes into \<open>mTextureId\<close>.
\<close>

definition create_node ::
  "GLuint \<Rightarrow> QSurfaceTexture \<Rightarrow> world \<Rightarrow> SurfaceTextureNode \<times> QSurfaceTexture \<times> world" where
  "create_node fresh item w =
     (let item1 = item\<lparr>mTextureId := fresh\<rparr>;
          w1 = emit [GlGenTextures fresh,
                     GlBindTexture GL_TEXTURE_EXTERNAL_OES (mTextureId item1),
                     GlTexParameterf GL_TEXTURE_EXTERNAL_OES GL_TEXTURE_MIN_FILTER GL_NEAREST,
                     GlTexParameterf GL_TEXTURE_EXTERNAL_OES GL_TEXTURE_MAG_FILTER GL_NEAREST,
                     GlDisable GL_TEXTURE_2D,
                     GlEnable GL_TEXTURE_EXTERNAL_OES] w;
          item2 = item1\<lparr>mSurfaceTexture := Some (SurfaceTextureObj (mTextureId item1))\<rparr>;
          w2 = emit [NewSurfaceTexture (mTextureId item1),
                     SetOnFrameAvailableListener (this_ptr item2)] w1;
          (node, w3) = SurfaceTextureNode_new (mSurfaceTexture item2) (mTextureId item2) w2
      in (node, item2, emit [EmitSurfaceTextureChanged] w3))"

text \<open>\<open>QSurfaceTexture::updatePaintNode\<close>, lines 172-222.\<close>

definition updatePaintNode ::
  "GLuint \<Rightarrow> SurfaceTextureNode option \<Rightarrow> QSurfaceTexture \<Rightarrow> world
     \<Rightarrow> SurfaceTextureNode \<times> QSurfaceTexture \<times> world" where
  "updatePaintNode fresh n item w =
     (let (node, item1, w1) =
            (case n of None \<Rightarrow> create_node fresh item w | Some nd \<Rightarrow> (nd, item, w));
          rect = flip_vertical (boundingRect item1);
          node1 = node\<lparr>m_geometry := updateTexturedRectGeometry rect unit_rect\<rparr>
      in (node1, item1, emit [MarkDirty {DirtyGeometry, DirtyMaterial}] w1))"

text \<open>
  \<open>Java_com_vadim_android_SurfaceTextureListener_frameAvailable\<close>, lines 224-230: posts
  one queued invocation of \<open>update\<close> on the item behind \<open>ptr\<close>.
\<close>

definition frameAvailable :: "jlong \<Rightarrow> world \<Rightarrow> world" where
  "frameAvailable ptr w = w\<lparr>queued := queued w @ [ptr]\<rparr>"

section \<open>The item in the scene graph\<close>

text \<open>
  The item, the paint node the scene graph holds for it (none before the first call of
  \<open>updatePaintNode\<close>), and the outside world.
\<close>

record sys =
  item :: QSurfaceTexture
  paintNode :: "SurfaceTextureNode option"
  env :: world

definition construct :: "jlong \<Rightarrow> QRectF \<Rightarrow> sys" where
  "construct ptr r =
     \<lparr>item = QSurfaceTexture_new ptr r, paintNode = None, env = \<lparr>trace = [], queued = []\<rparr>\<rparr>"

text \<open>
  Synchronisation: the scene graph calls \<open>updatePaintNode\<close> with the node it holds and
  keeps the node that is returned.
\<close>

definition sync :: "GLuint \<Rightarrow> sys \<Rightarrow> sys" where
  "sync fresh s =
     (let (node, it, w) = updatePaintNode fresh (paintNode s) (item s) (env s)
      in \<lparr>item = it, paintNode = Some node, env = w\<rparr>)"

text \<open>Rendering: the renderer calls \<open>preprocess\<close> on a node that has the flag \<open>UsePreprocess\<close>.\<close>

definition render :: "QMatrix4x4 \<Rightarrow> sys \<Rightarrow> sys" where
  "render T s =
     (case paintNode s of
        None \<Rightarrow> s
      | Some n \<Rightarrow>
          if usePreprocess n
          then (let (n', w) = preprocess T n (env s) in s\<lparr>paintNode := Some n', env := w\<rparr>)
          else s)"

definition traversal :: "GLuint \<Rightarrow> QMatrix4x4 \<Rightarrow> sys \<Rightarrow> sys" where
  "traversal fresh T s = render T (sync fresh s)"

text \<open>
  What can happen to a live item: the producer's listener fires (it exists once line 201
  has registered it), the item is resized, the scene graph is traversed, or the scene
  graph deletes the node it holds for the item (the destructor of lines 107-111 runs),
  so that the next call of \<open>updatePaintNode\<close> is handed no node. A traversal carries
  what the outside supplies to it: the name \<open>glGenTextures\<close> would return and the
  producer's transform.
\<close>

datatype step = FrameAvailable | Resize QRectF | Traverse GLuint QMatrix4x4 | DropNode

fun exec :: "step \<Rightarrow> sys \<Rightarrow> sys" where
  "exec FrameAvailable s =
     (case mSurfaceTexture (item s) of
        None \<Rightarrow> s
      | Some st \<Rightarrow> s\<lparr>env := frameAvailable (this_ptr (item s)) (env s)\<rparr>)"
| "exec (Resize r) s = s\<lparr>item := (item s)\<lparr>boundingRect := r\<rparr>\<rparr>"
| "exec (Traverse fresh T) s = traversal fresh T s"
| "exec DropNode s =
     (case paintNode s of
        None \<Rightarrow> s
      | Some n \<Rightarrow> s\<lparr>paintNode := None, env := SurfaceTextureNode_delete n (env s)\<rparr>)"

definition run :: "step list \<Rightarrow> sys \<Rightarrow> sys" where
  "run steps s = foldl (\<lambda>s a. exec a s) s steps"

text \<open>Item teardown: the destructor of the item runs in the world reached so far.\<close>

definition teardown :: "sys \<Rightarrow> world" where
  "teardown s = QSurfaceTexture_delete (item s) (env s)"

subsection \<open>Reading a trace\<close>

definition is_traverse :: "step \<Rightarrow> bool" where
  "is_traverse a = (case a of Traverse t T \<Rightarrow> True | _ \<Rightarrow> False)"

definition is_drop :: "step \<Rightarrow> bool" where
  "is_drop a = (a = DropNode)"

definition transform_ok :: "step \<Rightarrow> bool" where
  "transform_ok a = (case a of Traverse t T \<Rightarrow> length T = 16 | _ \<Rightarrow> True)"

definition is_gen :: "event \<Rightarrow> bool" where
  "is_gen e = (case e of GlGenTextures t \<Rightarrow> True | _ \<Rightarrow> False)"

definition is_delete :: "event \<Rightarrow> bool" where
  "is_delete e = (case e of GlDeleteTextures t \<Rightarrow> True | _ \<Rightarrow> False)"

definition is_bind :: "event \<Rightarrow> bool" where
  "is_bind e = (case e of NewSurfaceTexture t \<Rightarrow> True | _ \<Rightarrow> False)"

definition is_node_new :: "event \<Rightarrow> bool" where
  "is_node_new e = (e = NewGlobalRef)"

definition is_changed :: "event \<Rightarrow> bool" where
  "is_changed e = (e = EmitSurfaceTextureChanged)"

definition occurrences :: "(event \<Rightarrow> bool) \<Rightarrow> world \<Rightarrow> nat" where
  "occurrences P w = length (filter P (trace w))"

text \<open>
  A float that is neither a NaN nor the negative zero \<open>0x80000000\<close>: on such values
  \<open>==\<close> is equality of the bits.
\<close>

definition plain :: "jfloat \<Rightarrow> bool" where
  "plain f \<longleftrightarrow> \<not> isnan f \<and> f \<noteq> 0x80000000"

subsection \<open>States of the item\<close>

text \<open>
  Before the first traversal the item has no node, no texture and no producer handle,
  and nothing has left the program.
\<close>

definition unpainted :: "sys \<Rightarrow> bool" where
  "unpainted s \<longleftrightarrow>
     paintNode s = None \<and> trace (env s) = [] \<and> mTextureId (item s) = 0
     \<and> mSurfaceTexture (item s) = None"

text \<open>
  After the first traversal the scene graph holds a node with a material and the flag
  \<open>UsePreprocess\<close>; the texture, the producer object, the node and the signal have
  each occurred once, and nothing has been deleted.
\<close>

definition painted :: "sys \<Rightarrow> bool" where
  "painted s \<longleftrightarrow>
     (case paintNode s of
        None \<Rightarrow> False
      | Some n \<Rightarrow> material n \<noteq> None \<and> usePreprocess n)
     \<and> occurrences is_gen (env s) = 1
     \<and> occurrences is_bind (env s) = 1
     \<and> occurrences is_node_new (env s) = 1
     \<and> occurrences is_changed (env s) = 1
     \<and> occurrences is_delete (env s) = 0
     \<and> GlGenTextures (mTextureId (item s)) \<in> set (trace (env s))"

text \<open>The node's matrix and its Java array both hold 16 floats.\<close>

definition shaped :: "sys \<Rightarrow> bool" where
  "shaped s \<longleftrightarrow>
     (case paintNode s of
        None \<Rightarrow> True
      | Some n \<Rightarrow>
          (case material n of None \<Rightarrow> False | Some m \<Rightarrow> length (uSTMatrix m) = 16)
          \<and> length (m_uSTMatrixArray n) = 16 \<and> usePreprocess n)"

text \<open>A node held by the scene graph has a material and the flag \<open>UsePreprocess\<close>.\<close>

definition ready :: "sys \<Rightarrow> bool" where
  "ready s \<longleftrightarrow>
     (case paintNode s of None \<Rightarrow> True | Some n \<Rightarrow> material n \<noteq> None \<and> usePreprocess n)"

text \<open>
  Nothing has been deleted yet, and a texture id other than zero stands for a texture
  that was generated.
\<close>

definition guarded :: "sys \<Rightarrow> bool" where
  "guarded s \<longleftrightarrow>
     occurrences is_delete (env s) = 0
     \<and> (mTextureId (item s) = 0 \<or> 1 \<le> occurrences is_gen (env s))"

section \<open>Properties\<close>

subsection \<open>Auxiliary facts\<close>

lemma trace_emit [simp]: "trace (emit es w) = trace w @ es"
  by (simp add: emit_def)

lemma queued_emit [simp]: "queued (emit es w) = queued w"
  by (simp add: emit_def)

lemma occurrences_emit [simp]:
  "occurrences P (emit es w) = occurrences P w + length (filter P es)"
  by (simp add: occurrences_def)

lemma is_simps [simp]:
  "is_gen (GlGenTextures t)" "\<not> is_gen (GlBindTexture g t)" "\<not> is_gen (GlTexParameterf g1 g2 g3)"
  "\<not> is_gen (GlDisable g)" "\<not> is_gen (GlEnable g)" "\<not> is_gen (GlDeleteTextures t)"
  "\<not> is_gen (NewSurfaceTexture t)" "\<not> is_gen (SetOnFrameAvailableListener p)"
  "\<not> is_gen NewGlobalRef" "\<not> is_gen EmitSurfaceTextureChanged" "\<not> is_gen UpdateTexImage"
  "\<not> is_gen GetTransformMatrix" "\<not> is_gen (MarkDirty d)"
  "\<not> is_delete (GlGenTextures t)" "\<not> is_delete (GlBindTexture g t)"
  "\<not> is_delete (GlTexParameterf g1 g2 g3)"
  "\<not> is_delete (GlDisable g)" "\<not> is_delete (GlEnable g)" "is_delete (GlDeleteTextures t)"
  "\<not> is_delete (NewSurfaceTexture t)" "\<not> is_delete (SetOnFrameAvailableListener p)"
  "\<not> is_delete NewGlobalRef" "\<not> is_delete EmitSurfaceTextureChanged"
  "\<not> is_delete UpdateTexImage"
  "\<not> is_delete GetTransformMatrix" "\<not> is_delete (MarkDirty d)"
  "\<not> is_bind (GlGenTextures t)" "\<not> is_bind (GlBindTexture g t)"
  "\<not> is_bind (GlTexParameterf g1 g2 g3)"
  "\<not> is_bind (GlDisable g)" "\<not> is_bind (GlEnable g)" "\<not> is_bind (GlDeleteTextures t)"
  "is_bind (NewSurfaceTexture t)" "\<not> is_bind (SetOnFrameAvailableListener p)"
  "\<not> is_bind NewGlobalRef" "\<not> is_bind EmitSurfaceTextureChanged" "\<not> is_bind UpdateTexImage"
  "\<not> is_bind GetTransformMatrix" "\<not> is_bind (MarkDirty d)"
  "\<not> is_gen DeleteGlobalRef" "\<not> is_delete DeleteGlobalRef" "\<not> is_bind DeleteGlobalRef"
  by (simp_all add: is_gen_def is_delete_def is_bind_def)

lemma sync_None:
  "paintNode s = None \<Longrightarrow>
   sync fresh s =
     (let (node, it, w) = create_node fresh (item s) (env s)
      in \<lparr>item = it,
          paintNode = Some (node\<lparr>m_geometry :=
             updateTexturedRectGeometry (flip_vertical (boundingRect it)) unit_rect\<rparr>),
          env = emit [MarkDirty {DirtyGeometry, DirtyMaterial}] w\<rparr>)"
  by (simp add: sync_def updatePaintNode_def Let_def split: prod.splits)

lemma sync_Some:
  "paintNode s = Some n \<Longrightarrow>
   sync fresh s =
     \<lparr>item = item s,
      paintNode = Some (n\<lparr>m_geometry :=
         updateTexturedRectGeometry (flip_vertical (boundingRect (item s))) unit_rect\<rparr>),
      env = emit [MarkDirty {DirtyGeometry, DirtyMaterial}] (env s)\<rparr>"
  by (simp add: sync_def updatePaintNode_def Let_def)

lemma render_Some:
  "paintNode s = Some n \<Longrightarrow> usePreprocess n \<Longrightarrow> material n = Some m \<Longrightarrow>
   render T s =
     s\<lparr>paintNode := Some (n\<lparr>material := Some (m\<lparr>uSTMatrix :=
            GetFloatArrayRegion (getTransformMatrix T (m_uSTMatrixArray n)) 0 16 (uSTMatrix m)\<rparr>),
          m_uSTMatrixArray := getTransformMatrix T (m_uSTMatrixArray n)\<rparr>),
       env := emit [UpdateTexImage, GetTransformMatrix] (env s)\<rparr>"
  by (simp add: render_def preprocess_def Let_def)

lemma create_node_eq:
  "create_node fresh it w =
     (\<lparr>material = Some \<lparr>uSTMatrix = QMatrix4x4_identity, textureId = fresh\<rparr>,
       m_surfaceTexture = Some (SurfaceTextureObj fresh),
       m_geometry = replicate 4 \<lparr>vx = 0, vy = 0, vtx = 0, vty = 0\<rparr>,
       m_uSTMatrixArray = replicate 16 0,
       m_textureId = fresh,
       usePreprocess = True, ownsMaterial = True, blending = True\<rparr>,
      it\<lparr>mTextureId := fresh, mSurfaceTexture := Some (SurfaceTextureObj fresh)\<rparr>,
      emit [GlGenTextures fresh,
            GlBindTexture GL_TEXTURE_EXTERNAL_OES fresh,
            GlTexParameterf GL_TEXTURE_EXTERNAL_OES GL_TEXTURE_MIN_FILTER GL_NEAREST,
            GlTexParameterf GL_TEXTURE_EXTERNAL_OES GL_TEXTURE_MAG_FILTER GL_NEAREST,
            GlDisable GL_TEXTURE_2D,
            GlEnable GL_TEXTURE_EXTERNAL_OES,
            NewSurfaceTexture fresh,
            SetOnFrameAvailableListener (this_ptr it),
            NewGlobalRef,
            EmitSurfaceTextureChanged] w)"
  by (simp add: create_node_def SurfaceTextureNode_new_def State_default_def Let_def emit_def)

lemma item_render [simp]: "item (render T s) = item s"
  by (simp add: render_def split: option.splits prod.splits)

lemma occurrences_render:
  "\<not> P UpdateTexImage \<Longrightarrow> \<not> P GetTransformMatrix \<Longrightarrow>
   occurrences P (env (render T s)) = occurrences P (env s)"
  by (simp add: render_def preprocess_def Let_def split: option.splits)

lemma run_append: "run (xs @ ys) s = run ys (run xs s)"
  by (simp add: run_def)

lemma run_Cons: "run (a # xs) s = run xs (exec a s)"
  by (simp add: run_def)

lemma run_snoc: "run (xs @ [a]) s = exec a (run xs s)"
  by (simp add: run_def)

lemma unpainted_construct: "unpainted (construct ptr r)"
  by (simp add: unpainted_def construct_def QSurfaceTexture_new_def)

lemma unpainted_exec: "unpainted s \<Longrightarrow> \<not> is_traverse a \<Longrightarrow> unpainted (exec a s)"
  by (cases a) (simp_all add: unpainted_def is_traverse_def)

lemma unpainted_run:
  "unpainted s \<Longrightarrow> \<not> list_ex is_traverse steps \<Longrightarrow> unpainted (run steps s)"
  unfolding run_def
  by (induction steps arbitrary: s) (simp_all add: unpainted_exec)

lemma first_traversal:
  assumes "unpainted s"
  shows "painted (exec (Traverse t T) s) \<and> mTextureId (item (exec (Traverse t T) s)) = t"
  using assms
  by (simp add: unpainted_def painted_def traversal_def sync_None create_node_eq
      render_Some is_node_new_def is_changed_def occurrences_def)

lemma painted_exec:
  assumes "painted s" and "\<not> is_drop a"
  shows "painted (exec a s) \<and> mTextureId (item (exec a s)) = mTextureId (item s)"
proof -
  from assms obtain n m where n: "paintNode s = Some n" "material n = Some m" "usePreprocess n"
    by (auto simp: painted_def split: option.splits)
  show ?thesis
  proof (cases a)
    case FrameAvailable
    with assms show ?thesis
      by (simp add: painted_def frameAvailable_def occurrences_def split: option.splits)
  next
    case (Resize r)
    with assms show ?thesis by (simp add: painted_def)
  next
    case (Traverse t T)
    with assms n show ?thesis
      by (simp add: painted_def traversal_def sync_Some render_Some
          is_node_new_def is_changed_def occurrences_def)
  next
    case DropNode
    with assms show ?thesis by (simp add: is_drop_def)
  qed
qed

lemma painted_run:
  "painted s \<Longrightarrow> \<not> list_ex is_drop steps \<Longrightarrow>
   painted (run steps s) \<and> mTextureId (item (run steps s)) = mTextureId (item s)"
  unfolding run_def
proof (induction steps arbitrary: s)
  case Nil
  then show ?case by simp
next
  case (Cons a steps)
  from Cons.prems have d: "\<not> is_drop a" and ds: "\<not> list_ex is_drop steps" by simp_all
  from painted_exec [OF Cons.prems(1) d] have p: "painted (exec a s)"
    and t: "mTextureId (item (exec a s)) = mTextureId (item s)" by simp_all
  from Cons.IH [OF p ds] t show ?case by simp
qed

lemma zero_bits:
  fixes f :: "32 word"
  assumes "f AND 0x7FFFFFFF = 0"
  shows "f = 0 \<or> f = 0x80000000"
proof -
  have "f AND mask 31 = 0" using assms by (simp add: mask_eq_exp_minus_1)
  then have "take_bit 31 f = 0" by (simp add: take_bit_eq_mask)
  then have "take_bit 31 (unat f) = 0"
    by (metis unsigned_take_bit_eq unsigned_0)
  then have "unat f mod 2147483648 = 0" by (simp add: take_bit_eq_mod)
  moreover have "unat f < 4294967296" using unsigned_less [of f] by simp
  ultimately have "unat f = 0 \<or> unat f = 2147483648"
  proof -
    assume m: "unat f mod 2147483648 = 0" and b: "unat f < 4294967296"
    from m obtain k where k: "unat f = 2147483648 * k" by (auto elim: dvdE simp: mod_eq_0_iff_dvd)
    with b have "k < 2" by simp
    then have "k = 0 \<or> k = 1" by auto
    with k show ?thesis by auto
  qed
  then have "unat f = unat (0 :: 32 word) \<or> unat f = unat (0x80000000 :: 32 word)"
    by simp
  then show ?thesis by (simp only: word_unat_eq_iff)
qed

lemma float_eq_plain: "plain a \<Longrightarrow> plain b \<Longrightarrow> float_eq a b \<longleftrightarrow> a = b"
  using zero_bits [of a] zero_bits [of b]
  by (auto simp: float_eq_def plain_def iszero_def)

lemma list_all2_float_eq_plain:
  "list_all plain a \<Longrightarrow> list_all plain b \<Longrightarrow> list_all2 float_eq a b \<longleftrightarrow> a = b"
proof (induction a arbitrary: b)
  case Nil
  then show ?case by auto
next
  case (Cons x xs)
  then show ?case by (cases b) (auto simp: float_eq_plain)
qed

lemma shaped_construct: "shaped (construct ptr r)"
  by (simp add: shaped_def construct_def)

lemma GetFloatArrayRegion_whole:
  "length arr = 16 \<Longrightarrow> length buf = 16 \<Longrightarrow> GetFloatArrayRegion arr 0 16 buf = arr"
  by (simp add: GetFloatArrayRegion_def)

lemma shaped_traversal:
  assumes "shaped s" and "length T = 16"
  shows "shaped (traversal fresh T s)
         \<and> trace (env (traversal fresh T s))
             = trace (env (sync fresh s)) @ [UpdateTexImage, GetTransformMatrix]
         \<and> queued (env (traversal fresh T s)) = queued (env s)
         \<and> (\<exists>n m. paintNode (traversal fresh T s) = Some n \<and> material n = Some m
                \<and> uSTMatrix m = T)"
proof (cases "paintNode s")
  case None
  with assms show ?thesis
    by (simp add: traversal_def sync_None create_node_eq render_Some shaped_def
        getTransformMatrix_def GetFloatArrayRegion_whole QMatrix4x4_identity_def)
next
  case (Some n)
  with assms obtain m where m: "material n = Some m" "length (uSTMatrix m) = 16"
    "length (m_uSTMatrixArray n) = 16" "usePreprocess n"
    by (auto simp: shaped_def split: option.splits)
  with Some assms show ?thesis
    by (simp add: traversal_def sync_Some render_Some shaped_def
        getTransformMatrix_def GetFloatArrayRegion_whole)
qed

lemma shaped_exec: "shaped s \<Longrightarrow> transform_ok a \<Longrightarrow> shaped (exec a s)"
proof (cases a)
  case FrameAvailable
  assume "shaped s"
  with FrameAvailable show ?thesis by (auto simp: shaped_def split: option.splits)
next
  case (Resize r)
  assume "shaped s"
  with Resize show ?thesis by (simp add: shaped_def)
next
  case (Traverse t T)
  assume "shaped s" "transform_ok a"
  with Traverse show ?thesis using shaped_traversal [of s T t]
    by (simp add: transform_ok_def)
next
  case DropNode
  then show ?thesis by (simp add: shaped_def split: option.splits)
qed

lemma shaped_run: "shaped s \<Longrightarrow> list_all transform_ok steps \<Longrightarrow> shaped (run steps s)"
  unfolding run_def
  by (induction steps arbitrary: s) (simp_all add: shaped_exec)

lemma ready_construct: "ready (construct ptr r)"
  by (simp add: ready_def construct_def)

lemma ready_exec: "ready s \<Longrightarrow> ready (exec a s)"
proof (cases a)
  case FrameAvailable
  assume "ready s"
  with FrameAvailable show ?thesis by (auto simp: ready_def split: option.splits)
next
  case (Resize r)
  assume "ready s"
  with Resize show ?thesis by (simp add: ready_def)
next
  case (Traverse t T)
  assume r: "ready s"
  show ?thesis
  proof (cases "paintNode s")
    case None
    with Traverse show ?thesis
      by (simp add: ready_def traversal_def sync_None create_node_eq render_Some)
  next
    case (Some n)
    with r obtain m where "material n = Some m" "usePreprocess n"
      by (auto simp: ready_def)
    with Some Traverse show ?thesis
      by (simp add: ready_def traversal_def sync_Some render_Some)
  qed
next
  case DropNode
  then show ?thesis by (simp add: ready_def split: option.splits)
qed

lemma ready_run: "ready s \<Longrightarrow> ready (run steps s)"
  unfolding run_def
  by (induction steps arbitrary: s) (simp_all add: ready_exec)

lemma occurrences_traversal:
  assumes "\<not> P UpdateTexImage" and "\<not> P GetTransformMatrix" and "\<not> P (MarkDirty {DirtyGeometry, DirtyMaterial})"
  shows "occurrences P (env (traversal t T s))
           = occurrences P (env s)
             + (case paintNode s of
                  None \<Rightarrow> length (filter P (trace (snd (snd (create_node t (item s) \<lparr>trace = [], queued = []\<rparr>)))))
                | Some n \<Rightarrow> 0)"
proof (cases "paintNode s")
  case None
  with assms show ?thesis
    by (simp add: traversal_def occurrences_render sync_None create_node_eq)
next
  case (Some n)
  with assms show ?thesis
    by (simp add: traversal_def occurrences_render sync_Some)
qed

lemma mTextureId_traversal:
  "mTextureId (item (traversal t T s))
     = (case paintNode s of None \<Rightarrow> t | Some n \<Rightarrow> mTextureId (item s))"
  by (cases "paintNode s") (simp_all add: traversal_def sync_None sync_Some create_node_eq)

lemma guarded_construct: "guarded (construct ptr r)"
  by (simp add: guarded_def construct_def QSurfaceTexture_new_def occurrences_def)

lemma guarded_exec: "guarded s \<Longrightarrow> guarded (exec a s)"
proof (cases a)
  case FrameAvailable
  assume "guarded s"
  with FrameAvailable show ?thesis
    by (auto simp: guarded_def frameAvailable_def occurrences_def split: option.splits)
next
  case (Resize r)
  assume "guarded s"
  with Resize show ?thesis by (simp add: guarded_def)
next
  case (Traverse t T)
  assume "guarded s"
  with Traverse show ?thesis
    by (cases "paintNode s")
       (simp_all add: guarded_def occurrences_traversal mTextureId_traversal create_node_eq
          is_gen_def is_delete_def)
next
  case DropNode
  assume "guarded s"
  with DropNode show ?thesis
    by (auto simp: guarded_def SurfaceTextureNode_delete_def split: option.splits)
qed

lemma guarded_run: "guarded s \<Longrightarrow> guarded (run steps s)"
  unfolding run_def
  by (induction steps arbitrary: s) (simp_all add: guarded_exec)

lemma changed_exec:
  "occurrences is_changed (env s) = occurrences is_gen (env s) \<Longrightarrow>
   occurrences is_changed (env (exec a s)) = occurrences is_gen (env (exec a s))"
proof (cases a)
  case FrameAvailable
  assume "occurrences is_changed (env s) = occurrences is_gen (env s)"
  with FrameAvailable show ?thesis
    by (auto simp: frameAvailable_def occurrences_def split: option.splits)
next
  case (Resize r)
  assume "occurrences is_changed (env s) = occurrences is_gen (env s)"
  with Resize show ?thesis by simp
next
  case (Traverse t T)
  assume "occurrences is_changed (env s) = occurrences is_gen (env s)"
  with Traverse show ?thesis
    by (cases "paintNode s")
       (simp_all add: occurrences_traversal create_node_eq is_gen_def is_changed_def)
next
  case DropNode
  assume "occurrences is_changed (env s) = occurrences is_gen (env s)"
  with DropNode show ?thesis
    by (auto simp: SurfaceTextureNode_delete_def is_changed_def split: option.splits)
qed

lemma changed_run:
  "occurrences is_changed (env s) = occurrences is_gen (env s) \<Longrightarrow>
   occurrences is_changed (env (run steps s)) = occurrences is_gen (env (run steps s))"
  unfolding run_def
  by (induction steps arbitrary: s) (simp_all add: changed_exec)

lemma teardown_unpainted: "unpainted s \<Longrightarrow> teardown s = env s"
  by (simp add: teardown_def QSurfaceTexture_delete_def unpainted_def)

lemma teardown_trace:
  "mTextureId (item s) \<noteq> 0 \<Longrightarrow>
   trace (teardown s)
     = trace (env s) @ [GlBindTexture GL_TEXTURE_EXTERNAL_OES 0,
                        GlDeleteTextures (mTextureId (item s))]"
  by (simp add: teardown_def QSurfaceTexture_delete_def)

lemma occurrences_teardown:
  "occurrences is_gen (teardown s) = occurrences is_gen (env s)"
  "occurrences is_bind (teardown s) = occurrences is_bind (env s)"
  "occurrences is_node_new (teardown s) = occurrences is_node_new (env s)"
  "occurrences is_changed (teardown s) = occurrences is_changed (env s)"
  "occurrences is_delete (teardown s)
     = occurrences is_delete (env s) + (if mTextureId (item s) \<noteq> 0 then 1 else 0)"
  by (simp_all add: teardown_def QSurfaceTexture_delete_def is_node_new_def is_changed_def)

lemma occurrences_unpainted: "unpainted s \<Longrightarrow> occurrences P (env s) = 0"
  by (simp add: unpainted_def occurrences_def)

lemma after_first_traversal:
  assumes "\<not> list_ex is_traverse pre" and "\<not> list_ex is_drop post"
  shows "unpainted (run pre (construct ptr r))
    \<and> painted (exec (Traverse t T) (run pre (construct ptr r)))
    \<and> painted (run (pre @ Traverse t T # post) (construct ptr r))
    \<and> mTextureId (item (exec (Traverse t T) (run pre (construct ptr r)))) = t
    \<and> mTextureId (item (run (pre @ Traverse t T # post) (construct ptr r))) = t"
proof -
  let ?before = "run pre (construct ptr r)"
  let ?after = "exec (Traverse t T) ?before"
  have u: "unpainted ?before" by (rule unpainted_run [OF unpainted_construct assms(1)])
  from first_traversal [OF u] have p: "painted ?after" and i: "mTextureId (item ?after) = t"
    by simp_all
  have e: "run (pre @ Traverse t T # post) (construct ptr r) = run post ?after"
    by (simp add: run_append run_Cons)
  from painted_run [OF p assms(2)] i e u p show ?thesis by simp
qed

lemma ieee_round_0 [simp]: "ieee_round p emin 0 = 0"
  by (simp add: ieee_round_def)

lemma ieee_round_minus: "ieee_round p emin (- x) = - ieee_round p emin x"
  by (simp add: ieee_round_def Let_def sgn_minus)

lemma nearest_even_of_int [simp]: "nearest_even (of_int m) = m"
  by (simp add: nearest_even_def)

lemma floor_log2:
  assumes "2 ^ k \<le> x" and "x < 2 ^ Suc k"
  shows "\<lfloor>log 2 x\<rfloor> = int k"
proof -
  have "0 < x" using assms(1) by (smt (verit) zero_less_power)
  then show ?thesis using assms
    by (simp add: floor_log_eq_powr_iff powr_realpow powr_add)
qed

text \<open>An integer whose magnitude is below \<open>2 ^ p\<close> is a value of the format.\<close>

lemma ieee_round_small_int:
  assumes "2 ^ k \<le> \<bar>of_int m :: real\<bar>" and "\<bar>of_int m :: real\<bar> < 2 ^ Suc k" and "Suc k \<le> p"
    and "emin \<le> int k"
  shows "ieee_round p emin (of_int m) = of_int m"
proof -
  have e: "\<lfloor>log 2 \<bar>of_int m :: real\<bar>\<rfloor> = int k" using assms(1,2) by (rule floor_log2)
  have nz: "(of_int m :: real) \<noteq> 0" using assms(1)
    by (smt (verit) zero_less_power abs_zero)
  define n where "n = p - Suc k"
  have u: "2 powr (of_int (int k) - of_nat p + 1) = 1 / (2 :: real) ^ n"
  proof -
    have "of_int (int k) - real p + 1 = - real n" using assms(3) by (simp add: n_def)
    then show ?thesis by (simp add: powr_minus powr_realpow inverse_eq_divide)
  qed
  have "\<bar>of_int m :: real\<bar> / (1 / 2 ^ n) = of_int (\<bar>m\<bar> * 2 ^ n)" by simp
  then have r: "nearest_even (\<bar>of_int m :: real\<bar> / (1 / 2 ^ n)) = \<bar>m\<bar> * 2 ^ n"
    by (simp only: nearest_even_of_int)
  have "sgn (of_int m :: real) * \<bar>of_int m\<bar> = of_int m" by (simp add: sgn_mult_abs)
  with nz e u r assms(4) show ?thesis
    by (simp add: ieee_round_def Let_def max_def algebra_simps)
qed

lemma to_float_0 [simp]: "to_float 0 = 0"
  by (simp add: to_float_def)

lemma to_double_0 [simp]: "to_double 0 = 0"
  by (simp add: to_double_def)

lemma to_float_1 [simp]: "to_float 1 = 1"
  using ieee_round_small_int [of 0 1 24 "- 126"] by (simp add: to_float_def)

lemma to_double_1 [simp]: "to_double 1 = 1"
  using ieee_round_small_int [of 0 1 53 "- 1022"] by (simp add: to_double_def)

lemma to_double_minus: "to_double (- x) = - to_double x"
  by (simp add: to_double_def ieee_round_minus)

lemma flip_vertical_item:
  assumes "is_double H"
  shows "flip_vertical (QQuickItem_boundingRect W H)
           = \<lparr>rect_xp = 0, rect_yp = H, rect_w = W, rect_h = - H\<rparr>"
proof -
  from assms have h: "to_double H = H" by (simp add: is_double_def)
  then have "to_double (- H) = - H" by (simp add: to_double_minus)
  with h show ?thesis
    by (simp add: flip_vertical_def setTop_def setBottom_def rect_top_def rect_bottom_def
        QQuickItem_boundingRect_def Let_def)
qed

section \<open>The claims\<close>

subsection \<open>C1: the pull happens on every traversal\<close>

text \<open>
  C1. In every state the item can reach from its construction (through any resizes,
  frame-available callbacks, dropped nodes and earlier traversals whose transforms are
  4x4 matrices), a traversal ends with the call of \<open>updateTexImage\<close> followed by the
  call of \<open>getTransformMatrix\<close>, and then the transform of the material state is the
  producer's transform \<open>T\<close>. Nothing in the state is consulted to decide this: the
  queue of posted frame-available invocations may be empty or not, and it is left as
  it was.
\<close>

theorem pull_on_every_traversal:
  assumes "list_all transform_ok steps" and "length T = 16"
  shows "let s = run steps (construct ptr r);
             s1 = sync fresh s;
             s2 = exec (Traverse fresh T) s
         in trace (env s2) = trace (env s1) @ [UpdateTexImage, GetTransformMatrix]
            \<and> queued (env s2) = queued (env s)
            \<and> (\<exists>n m. paintNode s2 = Some n \<and> material n = Some m \<and> uSTMatrix m = T)"
  using shaped_traversal [OF shaped_run [OF shaped_construct assms(1)] assms(2)]
  by (simp add: Let_def)

theorem pull_on_every_traversal_witness:
  "list_all transform_ok
     [Traverse 7 QMatrix4x4_identity, Resize \<lparr>rect_xp = 0, rect_yp = 0, rect_w = 320, rect_h = 240\<rparr>, Traverse 0 QMatrix4x4_identity]
   \<and> length ([0x3F800000, 0, 0, 0, 0, 0xBF800000, 0, 0, 0, 0, 0x3F800000, 0, 0, 0x3F800000, 0, 0x3F800000] :: QMatrix4x4) = 16
   \<and> trace (env (exec (Traverse 9 [0x3F800000, 0, 0, 0, 0, 0xBF800000, 0, 0, 0, 0, 0x3F800000, 0, 0, 0x3F800000, 0, 0x3F800000])
        (run [Traverse 7 QMatrix4x4_identity, Resize \<lparr>rect_xp = 0, rect_yp = 0, rect_w = 320, rect_h = 240\<rparr>, Traverse 0 QMatrix4x4_identity]
           (construct 42 \<lparr>rect_xp = 0, rect_yp = 0, rect_w = 640, rect_h = 480\<rparr>))))
      = trace (env (sync 9
        (run [Traverse 7 QMatrix4x4_identity, Resize \<lparr>rect_xp = 0, rect_yp = 0, rect_w = 320, rect_h = 240\<rparr>, Traverse 0 QMatrix4x4_identity]
           (construct 42 \<lparr>rect_xp = 0, rect_yp = 0, rect_w = 640, rect_h = 480\<rparr>))))
        @ [UpdateTexImage, GetTransformMatrix]"
proof -
  have h1: "list_all transform_ok
     [Traverse 7 QMatrix4x4_identity, Resize \<lparr>rect_xp = 0, rect_yp = 0, rect_w = 320, rect_h = 240\<rparr>, Traverse 0 QMatrix4x4_identity]"
    by (simp add: transform_ok_def QMatrix4x4_identity_def)
  have h2: "length ([0x3F800000, 0, 0, 0, 0, 0xBF800000, 0, 0, 0, 0, 0x3F800000, 0, 0, 0x3F800000, 0, 0x3F800000] :: QMatrix4x4) = 16"
    by simp
  from pull_on_every_traversal [OF h1 h2, where ptr = 42 and fresh = 9 and r = "\<lparr>rect_xp = 0, rect_yp = 0, rect_w = 640, rect_h = 480\<rparr>"] h1 h2
  show ?thesis by (simp add: Let_def)
qed

subsection \<open>C3: the transform that is drawn is the producer's\<close>

text \<open>
  C3. When the node has a material, \<open>preprocess\<close> with producer transform \<open>T\<close> (16
  floats) leaves the material state's matrix equal to \<open>T\<close>, as bit patterns and
  whatever the matrix held before; the texture id is kept. The draw call that follows
  (\<open>updateState\<close>) uploads exactly \<open>T\<close>.
\<close>

theorem transform_fresh_before_draw:
  assumes "material n = Some m" and "length (uSTMatrix m) = 16"
    and "length (m_uSTMatrixArray n) = 16" and "length T = 16"
  shows "\<exists>m'. material (fst (preprocess T n w)) = Some m'
           \<and> uSTMatrix m' = T \<and> textureId m' = textureId m
           \<and> trace (updateState loc m' (snd (preprocess T n w)))
               = trace w @ [UpdateTexImage, GetTransformMatrix, SetUniformValue loc T,
                            GlActiveTexture GL_TEXTURE0,
                            GlBindTexture GL_TEXTURE_EXTERNAL_OES (textureId m)]"
  using assms
  by (simp add: preprocess_def Let_def getTransformMatrix_def GetFloatArrayRegion_whole
      updateState_def)

theorem transform_fresh_before_draw_witness:
  "material (fst (SurfaceTextureNode_new None 7 \<lparr>trace = [], queued = []\<rparr>)) = Some (State_default\<lparr>textureId := 7\<rparr>)
   \<and> length (uSTMatrix (State_default\<lparr>textureId := 7\<rparr>)) = 16
   \<and> length (m_uSTMatrixArray (fst (SurfaceTextureNode_new None 7 \<lparr>trace = [], queued = []\<rparr>))) = 16
   \<and> length ([0x3F800000, 0, 0, 0, 0, 0xBF800000, 0, 0, 0, 0, 0x3F800000, 0, 0, 0x3F800000, 0, 0x3F800000] :: QMatrix4x4) = 16
   \<and> (\<exists>m'. material (fst (preprocess [0x3F800000, 0, 0, 0, 0, 0xBF800000, 0, 0, 0, 0, 0x3F800000, 0, 0, 0x3F800000, 0, 0x3F800000] (fst (SurfaceTextureNode_new None 7 \<lparr>trace = [], queued = []\<rparr>)) \<lparr>trace = [], queued = []\<rparr>)) = Some m'
          \<and> uSTMatrix m' = [0x3F800000, 0, 0, 0, 0, 0xBF800000, 0, 0, 0, 0, 0x3F800000, 0, 0, 0x3F800000, 0, 0x3F800000]
          \<and> trace (updateState 3 m'
                (snd (preprocess [0x3F800000, 0, 0, 0, 0, 0xBF800000, 0, 0, 0, 0, 0x3F800000, 0, 0, 0x3F800000, 0, 0x3F800000] (fst (SurfaceTextureNode_new None 7 \<lparr>trace = [], queued = []\<rparr>)) \<lparr>trace = [], queued = []\<rparr>)))
              = [UpdateTexImage, GetTransformMatrix, SetUniformValue 3 [0x3F800000, 0, 0, 0, 0, 0xBF800000, 0, 0, 0, 0, 0x3F800000, 0, 0, 0x3F800000, 0, 0x3F800000],
                 GlActiveTexture GL_TEXTURE0, GlBindTexture GL_TEXTURE_EXTERNAL_OES 7])"
proof -
  have h1: "material (fst (SurfaceTextureNode_new None 7 \<lparr>trace = [], queued = []\<rparr>))
              = Some (State_default\<lparr>textureId := 7\<rparr>)"
    by (simp add: SurfaceTextureNode_new_def)
  have h2: "length (uSTMatrix (State_default\<lparr>textureId := 7\<rparr>)) = 16"
    by (simp add: State_default_def QMatrix4x4_identity_def)
  have h3: "length (m_uSTMatrixArray (fst (SurfaceTextureNode_new None 7 \<lparr>trace = [], queued = []\<rparr>))) = 16"
    by (simp add: SurfaceTextureNode_new_def)
  have h4: "length ([0x3F800000, 0, 0, 0, 0, 0xBF800000, 0, 0, 0, 0, 0x3F800000, 0, 0, 0x3F800000, 0, 0x3F800000] :: QMatrix4x4) = 16"
    by simp
  from transform_fresh_before_draw [OF h1 h2 h3 h4, where w = "\<lparr>trace = [], queued = []\<rparr>" and loc = 3]
  obtain m' where "material (fst (preprocess [0x3F800000, 0, 0, 0, 0, 0xBF800000, 0, 0, 0, 0, 0x3F800000, 0, 0, 0x3F800000, 0, 0x3F800000] (fst (SurfaceTextureNode_new None 7 \<lparr>trace = [], queued = []\<rparr>)) \<lparr>trace = [], queued = []\<rparr>))
        = Some m'"
    and "uSTMatrix m' = [0x3F800000, 0, 0, 0, 0, 0xBF800000, 0, 0, 0, 0, 0x3F800000, 0, 0, 0x3F800000, 0, 0x3F800000]"
    and "trace (updateState 3 m'
                (snd (preprocess [0x3F800000, 0, 0, 0, 0, 0xBF800000, 0, 0, 0, 0, 0x3F800000, 0, 0, 0x3F800000, 0, 0x3F800000] (fst (SurfaceTextureNode_new None 7 \<lparr>trace = [], queued = []\<rparr>)) \<lparr>trace = [], queued = []\<rparr>)))
              = [UpdateTexImage, GetTransformMatrix, SetUniformValue 3 [0x3F800000, 0, 0, 0, 0, 0xBF800000, 0, 0, 0, 0, 0x3F800000, 0, 0, 0x3F800000, 0, 0x3F800000],
                 GlActiveTexture GL_TEXTURE0, GlBindTexture GL_TEXTURE_EXTERNAL_OES 7]"
    by (auto simp: State_default_def)
  with h1 h2 h3 h4 show ?thesis by blast
qed

subsection \<open>C4: one texture, one producer object, one node, one deletion\<close>

text \<open>
  C4, as stated, fails. \<open>updatePaintNode\<close> creates whenever it is handed no node
  (line 176), and the scene graph may delete the node between two traversals. In the
  life traversal, dropped node, traversal, destructor, with \<open>glGenTextures\<close> returning
  7 and then 8, the texture, the \<open>SurfaceTexture\<close> and the node are each created
  twice, one texture is deleted, and texture 7 is never deleted.
\<close>

theorem texture_lifecycle_counterexample:
  "occurrences is_gen (teardown (run [Traverse 7 [0x3F800000, 0, 0, 0, 0, 0xBF800000, 0, 0, 0, 0, 0x3F800000, 0, 0, 0x3F800000, 0, 0x3F800000], DropNode, Traverse 8 [0x3F800000, 0, 0, 0, 0, 0xBF800000, 0, 0, 0, 0, 0x3F800000, 0, 0, 0x3F800000, 0, 0x3F800000]] (construct 42 \<lparr>rect_xp = 0, rect_yp = 0, rect_w = 640, rect_h = 480\<rparr>))) = 2
   \<and> occurrences is_bind (teardown (run [Traverse 7 [0x3F800000, 0, 0, 0, 0, 0xBF800000, 0, 0, 0, 0, 0x3F800000, 0, 0, 0x3F800000, 0, 0x3F800000], DropNode, Traverse 8 [0x3F800000, 0, 0, 0, 0, 0xBF800000, 0, 0, 0, 0, 0x3F800000, 0, 0, 0x3F800000, 0, 0x3F800000]] (construct 42 \<lparr>rect_xp = 0, rect_yp = 0, rect_w = 640, rect_h = 480\<rparr>))) = 2
   \<and> occurrences is_node_new (teardown (run [Traverse 7 [0x3F800000, 0, 0, 0, 0, 0xBF800000, 0, 0, 0, 0, 0x3F800000, 0, 0, 0x3F800000, 0, 0x3F800000], DropNode, Traverse 8 [0x3F800000, 0, 0, 0, 0, 0xBF800000, 0, 0, 0, 0, 0x3F800000, 0, 0, 0x3F800000, 0, 0x3F800000]] (construct 42 \<lparr>rect_xp = 0, rect_yp = 0, rect_w = 640, rect_h = 480\<rparr>))) = 2
   \<and> occurrences is_delete (teardown (run [Traverse 7 [0x3F800000, 0, 0, 0, 0, 0xBF800000, 0, 0, 0, 0, 0x3F800000, 0, 0, 0x3F800000, 0, 0x3F800000], DropNode, Traverse 8 [0x3F800000, 0, 0, 0, 0, 0xBF800000, 0, 0, 0, 0, 0x3F800000, 0, 0, 0x3F800000, 0, 0x3F800000]] (construct 42 \<lparr>rect_xp = 0, rect_yp = 0, rect_w = 640, rect_h = 480\<rparr>))) = 1
   \<and> GlDeleteTextures 7
        \<notin> set (trace (teardown (run [Traverse 7 [0x3F800000, 0, 0, 0, 0, 0xBF800000, 0, 0, 0, 0, 0x3F800000, 0, 0, 0x3F800000, 0, 0x3F800000], DropNode, Traverse 8 [0x3F800000, 0, 0, 0, 0, 0xBF800000, 0, 0, 0, 0, 0x3F800000, 0, 0, 0x3F800000, 0, 0x3F800000]] (construct 42 \<lparr>rect_xp = 0, rect_yp = 0, rect_w = 640, rect_h = 480\<rparr>))))"
  by (simp add: run_def construct_def QSurfaceTexture_new_def traversal_def sync_None
      sync_Some render_Some create_node_eq Let_def teardown_def QSurfaceTexture_delete_def
      SurfaceTextureNode_delete_def occurrences_def is_node_new_def)

text \<open>
  C4, amended. Take any life of an item that has at least one traversal and in which,
  from the first traversal on, the scene graph hands every call of \<open>updatePaintNode\<close>
  the node that the previous call returned: the steps \<open>pre\<close> before the first
  traversal (none of them a traversal), the first traversal, in which \<open>glGenTextures\<close>
  returns the name \<open>t\<close> (a name of a texture is never zero), any steps \<open>post\<close> after
  it that do not drop the node, and then the destructor. Before the first traversal no
  texture, no \<open>SurfaceTexture\<close> and no node exist; the first traversal creates one of
  each; at the end the trace holds exactly one \<open>glGenTextures\<close>, one \<open>SurfaceTexture\<close>
  construction, one node construction and one \<open>glDeleteTextures\<close>, which is the last
  call and deletes \<open>t\<close>.
\<close>

theorem texture_lifecycle_exactly_once:
  assumes "\<not> list_ex is_traverse pre" and "t \<noteq> 0" and "\<not> list_ex is_drop post"
  shows "let s0 = run pre (construct ptr r);
             s1 = exec (Traverse t T) s0;
             s2 = run (pre @ Traverse t T # post) (construct ptr r);
             w = teardown s2
         in occurrences is_gen (env s0) = 0 \<and> occurrences is_bind (env s0) = 0
            \<and> occurrences is_node_new (env s0) = 0
            \<and> occurrences is_gen (env s1) = 1 \<and> occurrences is_bind (env s1) = 1
            \<and> occurrences is_node_new (env s1) = 1
            \<and> occurrences is_gen w = 1 \<and> occurrences is_bind w = 1
            \<and> occurrences is_node_new w = 1
            \<and> occurrences is_delete (env s2) = 0 \<and> occurrences is_delete w = 1
            \<and> trace w = trace (env s2) @ [GlBindTexture GL_TEXTURE_EXTERNAL_OES 0,
                                          GlDeleteTextures t]"
  using after_first_traversal [OF assms(1) assms(3), where ptr = ptr and r = r and t = t
      and T = T] assms(2)
  by (simp add: Let_def occurrences_unpainted occurrences_teardown teardown_trace painted_def)

theorem texture_lifecycle_exactly_once_witness:
  "\<not> list_ex is_traverse [Resize \<lparr>rect_xp = 0, rect_yp = 0, rect_w = 320, rect_h = 240\<rparr>, DropNode]
   \<and> (7 :: GLuint) \<noteq> 0
   \<and> \<not> list_ex is_drop [FrameAvailable, Traverse 8 [0x3F800000, 0, 0, 0, 0, 0xBF800000, 0, 0, 0, 0, 0x3F800000, 0, 0, 0x3F800000, 0, 0x3F800000], Traverse 9 [0x3F800000, 0, 0, 0, 0, 0xBF800000, 0, 0, 0, 0, 0x3F800000, 0, 0, 0x3F800000, 0, 0x3F800000]]
   \<and> occurrences is_gen (teardown (run ([Resize \<lparr>rect_xp = 0, rect_yp = 0, rect_w = 320, rect_h = 240\<rparr>, DropNode] @ Traverse 7 [0x3F800000, 0, 0, 0, 0, 0xBF800000, 0, 0, 0, 0, 0x3F800000, 0, 0, 0x3F800000, 0, 0x3F800000]
         # [FrameAvailable, Traverse 8 [0x3F800000, 0, 0, 0, 0, 0xBF800000, 0, 0, 0, 0, 0x3F800000, 0, 0, 0x3F800000, 0, 0x3F800000], Traverse 9 [0x3F800000, 0, 0, 0, 0, 0xBF800000, 0, 0, 0, 0, 0x3F800000, 0, 0, 0x3F800000, 0, 0x3F800000]]) (construct 42 \<lparr>rect_xp = 0, rect_yp = 0, rect_w = 640, rect_h = 480\<rparr>))) = 1
   \<and> occurrences is_bind (teardown (run ([Resize \<lparr>rect_xp = 0, rect_yp = 0, rect_w = 320, rect_h = 240\<rparr>, DropNode] @ Traverse 7 [0x3F800000, 0, 0, 0, 0, 0xBF800000, 0, 0, 0, 0, 0x3F800000, 0, 0, 0x3F800000, 0, 0x3F800000]
         # [FrameAvailable, Traverse 8 [0x3F800000, 0, 0, 0, 0, 0xBF800000, 0, 0, 0, 0, 0x3F800000, 0, 0, 0x3F800000, 0, 0x3F800000], Traverse 9 [0x3F800000, 0, 0, 0, 0, 0xBF800000, 0, 0, 0, 0, 0x3F800000, 0, 0, 0x3F800000, 0, 0x3F800000]]) (construct 42 \<lparr>rect_xp = 0, rect_yp = 0, rect_w = 640, rect_h = 480\<rparr>))) = 1
   \<and> occurrences is_delete (teardown (run ([Resize \<lparr>rect_xp = 0, rect_yp = 0, rect_w = 320, rect_h = 240\<rparr>, DropNode] @ Traverse 7 [0x3F800000, 0, 0, 0, 0, 0xBF800000, 0, 0, 0, 0, 0x3F800000, 0, 0, 0x3F800000, 0, 0x3F800000]
         # [FrameAvailable, Traverse 8 [0x3F800000, 0, 0, 0, 0, 0xBF800000, 0, 0, 0, 0, 0x3F800000, 0, 0, 0x3F800000, 0, 0x3F800000], Traverse 9 [0x3F800000, 0, 0, 0, 0, 0xBF800000, 0, 0, 0, 0, 0x3F800000, 0, 0, 0x3F800000, 0, 0x3F800000]]) (construct 42 \<lparr>rect_xp = 0, rect_yp = 0, rect_w = 640, rect_h = 480\<rparr>))) = 1"
proof -
  have h1: "\<not> list_ex is_traverse [Resize \<lparr>rect_xp = 0, rect_yp = 0, rect_w = 320, rect_h = 240\<rparr>, DropNode]"
    by (simp add: is_traverse_def)
  have h2: "(7 :: GLuint) \<noteq> 0"
    by simp
  have h3: "\<not> list_ex is_drop [FrameAvailable, Traverse 8 [0x3F800000, 0, 0, 0, 0, 0xBF800000, 0, 0, 0, 0, 0x3F800000, 0, 0, 0x3F800000, 0, 0x3F800000], Traverse 9 [0x3F800000, 0, 0, 0, 0, 0xBF800000, 0, 0, 0, 0, 0x3F800000, 0, 0, 0x3F800000, 0, 0x3F800000]]"
    by (simp add: is_drop_def)
  from texture_lifecycle_exactly_once [OF h1 h2 h3, where ptr = 42 and r = "\<lparr>rect_xp = 0, rect_yp = 0, rect_w = 640, rect_h = 480\<rparr>" and T = "[0x3F800000, 0, 0, 0, 0, 0xBF800000, 0, 0, 0, 0, 0x3F800000, 0, 0, 0x3F800000, 0, 0x3F800000]"]
    h1 h2 h3
  show ?thesis by (simp add: Let_def)
qed

subsection \<open>C5: the geometry is written and marked dirty on every call\<close>

text \<open>
  C5, as stated, fails. Two traversals of an item whose bounding rectangle stays
  640 by 480: the second one leaves the rectangle and the vertices as they were and
  still marks the node dirty for its geometry as well as for its material.
\<close>

theorem geometry_dirty_counterexample:
  "let s = run [Traverse 1 QMatrix4x4_identity]
             (construct 0 \<lparr>rect_xp = 0, rect_yp = 0, rect_w = 640, rect_h = 480\<rparr>);
       s' = exec (Traverse 2 QMatrix4x4_identity) s
   in boundingRect (item s') = boundingRect (item s)
      \<and> (\<exists>n n'. paintNode s = Some n \<and> paintNode s' = Some n' \<and> m_geometry n' = m_geometry n)
      \<and> drop (length (trace (env s))) (trace (env s'))
          = [MarkDirty {DirtyGeometry, DirtyMaterial}, UpdateTexImage, GetTransformMatrix]"
  by (simp add: run_def construct_def QSurfaceTexture_new_def traversal_def sync_None
      sync_Some render_Some create_node_eq Let_def)

text \<open>
  C5, amended. Every call of \<open>updatePaintNode\<close>, with a node or without, leaves the
  bounding rectangle alone, writes the four vertices from the flipped bounding rectangle
  and ends by marking the node dirty for both geometry and material; it compares nothing
  with a previous rectangle. So does every traversal in every state the item can reach,
  whatever came before it (another traversal, a callback, a resize, a dropped node or
  nothing at all): after the calls that create the node, if there was none, the node
  is marked dirty for geometry and material, and then the pull follows.
\<close>

theorem geometry_rewritten_on_every_call:
  "(case updatePaintNode fresh n it w of
      (node, it', w') \<Rightarrow>
        boundingRect it' = boundingRect it
        \<and> m_geometry node
            = updateTexturedRectGeometry (flip_vertical (boundingRect it)) unit_rect
        \<and> trace w'
            = (case n of
                 None \<Rightarrow> trace (snd (snd (create_node fresh it w)))
               | Some nd \<Rightarrow> trace w)
              @ [MarkDirty {DirtyGeometry, DirtyMaterial}])
   \<and> (let s = run steps (construct ptr r);
           s' = exec (Traverse t T) s
       in boundingRect (item s') = boundingRect (item s)
          \<and> (\<exists>n'. paintNode s' = Some n'
                 \<and> m_geometry n'
                     = updateTexturedRectGeometry (flip_vertical (boundingRect (item s)))
                         unit_rect)
          \<and> trace (env s')
              = trace (env s)
                @ (case paintNode s of
                     None \<Rightarrow>
                     [GlGenTextures t,
                      GlBindTexture GL_TEXTURE_EXTERNAL_OES t,
                      GlTexParameterf GL_TEXTURE_EXTERNAL_OES GL_TEXTURE_MIN_FILTER GL_NEAREST,
                      GlTexParameterf GL_TEXTURE_EXTERNAL_OES GL_TEXTURE_MAG_FILTER GL_NEAREST,
                      GlDisable GL_TEXTURE_2D,
                      GlEnable GL_TEXTURE_EXTERNAL_OES,
                      NewSurfaceTexture t,
                      SetOnFrameAvailableListener (this_ptr (item s)),
                      NewGlobalRef,
                      EmitSurfaceTextureChanged]
                   | Some nd \<Rightarrow> [])
                @ [MarkDirty {DirtyGeometry, DirtyMaterial}, UpdateTexImage,
                   GetTransformMatrix])"
proof (rule conjI)
  show "case updatePaintNode fresh n it w of
      (node, it', w') \<Rightarrow>
        boundingRect it' = boundingRect it
        \<and> m_geometry node
            = updateTexturedRectGeometry (flip_vertical (boundingRect it)) unit_rect
        \<and> trace w'
            = (case n of
                 None \<Rightarrow> trace (snd (snd (create_node fresh it w)))
               | Some nd \<Rightarrow> trace w)
              @ [MarkDirty {DirtyGeometry, DirtyMaterial}]"
    by (cases n) (simp_all add: updatePaintNode_def create_node_eq)
next
  let ?cur = "run steps (construct ptr r)"
  have rd: "ready ?cur" by (rule ready_run [OF ready_construct])
  show "let s = run steps (construct ptr r);
           s' = exec (Traverse t T) s
       in boundingRect (item s') = boundingRect (item s)
          \<and> (\<exists>n'. paintNode s' = Some n'
                 \<and> m_geometry n'
                     = updateTexturedRectGeometry (flip_vertical (boundingRect (item s)))
                         unit_rect)
          \<and> trace (env s')
              = trace (env s)
                @ (case paintNode s of
                     None \<Rightarrow>
                     [GlGenTextures t,
                      GlBindTexture GL_TEXTURE_EXTERNAL_OES t,
                      GlTexParameterf GL_TEXTURE_EXTERNAL_OES GL_TEXTURE_MIN_FILTER GL_NEAREST,
                      GlTexParameterf GL_TEXTURE_EXTERNAL_OES GL_TEXTURE_MAG_FILTER GL_NEAREST,
                      GlDisable GL_TEXTURE_2D,
                      GlEnable GL_TEXTURE_EXTERNAL_OES,
                      NewSurfaceTexture t,
                      SetOnFrameAvailableListener (this_ptr (item s)),
                      NewGlobalRef,
                      EmitSurfaceTextureChanged]
                   | Some nd \<Rightarrow> [])
                @ [MarkDirty {DirtyGeometry, DirtyMaterial}, UpdateTexImage,
                   GetTransformMatrix]"
  proof (cases "paintNode ?cur")
    case None
    then show ?thesis
      by (simp add: Let_def traversal_def sync_None create_node_eq render_Some)
  next
    case (Some nd)
    with rd obtain m where "material nd = Some m" "usePreprocess nd"
      by (auto simp: ready_def)
    with Some show ?thesis
      by (simp add: Let_def traversal_def sync_Some render_Some)
  qed
qed

subsection \<open>C6: the quad is flipped vertically\<close>

text \<open>
  C6. The bounding rectangle of an item is \<open>QRectF(0, 0, width, height)\<close>, with
  \<open>width\<close> and \<open>height\<close> two finite doubles that convert to finite floats. For every
  such rectangle the flip is exact, with the rounding of every double operation and of
  the \<open>float\<close> temporary of line 213 taken into account: the rectangle handed to the
  geometry has the top and the bottom of the bounding rectangle exchanged and the same
  left and right. The four vertices that \<open>updatePaintNode\<close> publishes, on the first
  call and on every later one, pair the texture row 0 with the bottom of the bounding
  rectangle (the height, as a float) and the texture row 1 with its top (zero), where
  the geometry of the rectangle as it is would pair row 0 with the top and row 1 with
  the bottom.
\<close>

theorem geometry_vertical_flip:
  assumes "boundingRect it = QQuickItem_boundingRect W H"
    and "is_double W" and "is_double H" and "narrows W" and "narrows H"
  shows "rect_top (flip_vertical (boundingRect it)) = rect_bottom (boundingRect it)
   \<and> rect_bottom (flip_vertical (boundingRect it)) = rect_top (boundingRect it)
   \<and> rect_left (flip_vertical (boundingRect it)) = rect_left (boundingRect it)
   \<and> rect_right (flip_vertical (boundingRect it)) = rect_right (boundingRect it)
   \<and> m_geometry (fst (updatePaintNode fresh n it w))
       = [\<lparr>vx = 0, vy = to_float H, vtx = 0, vty = 0\<rparr>,
          \<lparr>vx = 0, vy = 0, vtx = 0, vty = 1\<rparr>,
          \<lparr>vx = to_float W, vy = to_float H, vtx = 1, vty = 0\<rparr>,
          \<lparr>vx = to_float W, vy = 0, vtx = 1, vty = 1\<rparr>]
   \<and> updateTexturedRectGeometry (boundingRect it) unit_rect
       = [\<lparr>vx = 0, vy = 0, vtx = 0, vty = 0\<rparr>,
          \<lparr>vx = 0, vy = to_float H, vtx = 0, vty = 1\<rparr>,
          \<lparr>vx = to_float W, vy = 0, vtx = 1, vty = 0\<rparr>,
          \<lparr>vx = to_float W, vy = to_float H, vtx = 1, vty = 1\<rparr>]"
proof -
  from assms(2,3) have d: "to_double W = W" "to_double H = H"
    by (simp_all add: is_double_def)
  note f = flip_vertical_item [OF assms(3), of W]
  have g: "updateTexturedRectGeometry (flip_vertical (QQuickItem_boundingRect W H)) unit_rect
       = [\<lparr>vx = 0, vy = to_float H, vtx = 0, vty = 0\<rparr>,
          \<lparr>vx = 0, vy = 0, vtx = 0, vty = 1\<rparr>,
          \<lparr>vx = to_float W, vy = to_float H, vtx = 1, vty = 0\<rparr>,
          \<lparr>vx = to_float W, vy = 0, vtx = 1, vty = 1\<rparr>]"
    using d
    by (simp add: f updateTexturedRectGeometry_def unit_rect_def rect_top_def rect_bottom_def
        rect_left_def rect_right_def)
  have u: "m_geometry (fst (updatePaintNode fresh n it w))
       = updateTexturedRectGeometry (flip_vertical (boundingRect it)) unit_rect"
    by (cases n) (simp_all add: updatePaintNode_def create_node_eq)
  from d show ?thesis
    unfolding u
    unfolding assms(1) g
    by (simp add: f)
       (simp add: QQuickItem_boundingRect_def updateTexturedRectGeometry_def unit_rect_def
          rect_top_def rect_bottom_def rect_left_def rect_right_def)
qed

theorem geometry_vertical_flip_witness:
  "boundingRect (QSurfaceTexture_new 42 (QQuickItem_boundingRect 640 480))
     = QQuickItem_boundingRect 640 480
   \<and> is_double 640 \<and> is_double 480 \<and> narrows 640 \<and> narrows 480
   \<and> m_geometry (fst (updatePaintNode 7 None
        (QSurfaceTexture_new 42 (QQuickItem_boundingRect 640 480)) \<lparr>trace = [], queued = []\<rparr>))
       = [\<lparr>vx = 0, vy = 480, vtx = 0, vty = 0\<rparr>,
          \<lparr>vx = 0, vy = 0, vtx = 0, vty = 1\<rparr>,
          \<lparr>vx = 640, vy = 480, vtx = 1, vty = 0\<rparr>,
          \<lparr>vx = 640, vy = 0, vtx = 1, vty = 1\<rparr>]"
proof -
  have h1: "boundingRect (QSurfaceTexture_new 42 (QQuickItem_boundingRect 640 480))
     = QQuickItem_boundingRect 640 480"
    by (simp add: QSurfaceTexture_new_def)
  have d1: "to_double 640 = 640"
    using ieee_round_small_int [of 9 640 53 "- 1022"] by (simp add: to_double_def)
  have d2: "to_double 480 = 480"
    using ieee_round_small_int [of 8 480 53 "- 1022"] by (simp add: to_double_def)
  have f1: "to_float 640 = 640"
    using ieee_round_small_int [of 9 640 24 "- 126"] by (simp add: to_float_def)
  have f2: "to_float 480 = 480"
    using ieee_round_small_int [of 8 480 24 "- 126"] by (simp add: to_float_def)
  have h2: "is_double 640" and h3: "is_double 480"
    using d1 d2 by (simp_all add: is_double_def)
  have h4: "narrows 640" and h5: "narrows 480"
    using f1 f2 by (simp_all add: narrows_def)
  from geometry_vertical_flip [OF h1 h2 h3 h4 h5, where fresh = 7 and n = None and w = "\<lparr>trace = [], queued = []\<rparr>"]
    h1 h2 h3 h4 h5 f1 f2
  show ?thesis by simp
qed

subsection \<open>C7: the change signal is emitted once per created node\<close>

text \<open>
  C7, as stated, fails. Line 208 emits \<open>surfaceTextureChanged\<close> on every call of
  \<open>updatePaintNode\<close> that is handed no node. In the life traversal, dropped node,
  traversal, the signal is emitted twice for one item.
\<close>

theorem surfaceTextureChanged_counterexample:
  "occurrences is_changed
     (env (run [Traverse 7 [0x3F800000, 0, 0, 0, 0, 0xBF800000, 0, 0, 0, 0, 0x3F800000, 0, 0, 0x3F800000, 0, 0x3F800000], DropNode, Traverse 8 [0x3F800000, 0, 0, 0, 0, 0xBF800000, 0, 0, 0, 0, 0x3F800000, 0, 0, 0x3F800000, 0, 0x3F800000]] (construct 42 \<lparr>rect_xp = 0, rect_yp = 0, rect_w = 640, rect_h = 480\<rparr>))) = 2"
  by (simp add: run_def construct_def QSurfaceTexture_new_def traversal_def sync_None
      sync_Some render_Some create_node_eq Let_def SurfaceTextureNode_delete_def
      occurrences_def is_changed_def)

text \<open>
  C7, amended. With \<open>pre\<close> the steps before the first traversal: before it the signal
  \<open>surfaceTextureChanged\<close> has not been emitted and the producer handle is not valid;
  the first traversal makes the handle valid and emits the signal once; after any
  further steps in which the scene graph keeps handing back the node, and after the
  destructor, it has still been emitted exactly once. In every life of an item, with
  dropped nodes or without, the signal has been emitted once for each texture that was
  generated.
\<close>

theorem surfaceTextureChanged_once:
  assumes "\<not> list_ex is_traverse pre" and "\<not> list_ex is_drop post"
  shows "(let s0 = run pre (construct ptr r);
              s1 = exec (Traverse t T) s0;
              s2 = run (pre @ Traverse t T # post) (construct ptr r)
          in occurrences is_changed (env s0) = 0
             \<and> occurrences is_changed (env s1) = 1
             \<and> mSurfaceTexture (item s0) = None
             \<and> mSurfaceTexture (item s1) = Some (SurfaceTextureObj t)
             \<and> occurrences is_changed (env s2) = 1
             \<and> occurrences is_changed (teardown s2) = 1)
         \<and> occurrences is_changed (env (run steps (construct ptr r)))
             = occurrences is_gen (env (run steps (construct ptr r)))"
proof -
  let ?before = "run pre (construct ptr r)"
  note a = after_first_traversal [OF assms, where ptr = ptr and r = r and t = t and T = T]
  have "mSurfaceTexture (item (exec (Traverse t T) ?before)) = Some (SurfaceTextureObj t)"
    using a
    by (simp add: unpainted_def traversal_def sync_None create_node_eq render_Some)
  moreover have "occurrences is_changed (env (run steps (construct ptr r)))
             = occurrences is_gen (env (run steps (construct ptr r)))"
    by (rule changed_run) (simp add: construct_def occurrences_def)
  ultimately show ?thesis using a
    by (simp add: Let_def occurrences_unpainted occurrences_teardown painted_def unpainted_def)
qed

theorem surfaceTextureChanged_once_witness:
  "\<not> list_ex is_traverse [Resize \<lparr>rect_xp = 0, rect_yp = 0, rect_w = 320, rect_h = 240\<rparr>]
   \<and> \<not> list_ex is_drop [FrameAvailable, Traverse 8 [0x3F800000, 0, 0, 0, 0, 0xBF800000, 0, 0, 0, 0, 0x3F800000, 0, 0, 0x3F800000, 0, 0x3F800000], Traverse 9 [0x3F800000, 0, 0, 0, 0, 0xBF800000, 0, 0, 0, 0, 0x3F800000, 0, 0, 0x3F800000, 0, 0x3F800000]]
   \<and> occurrences is_changed (env (run [Resize \<lparr>rect_xp = 0, rect_yp = 0, rect_w = 320, rect_h = 240\<rparr>] (construct 42 \<lparr>rect_xp = 0, rect_yp = 0, rect_w = 640, rect_h = 480\<rparr>))) = 0
   \<and> occurrences is_changed (env (exec (Traverse 7 [0x3F800000, 0, 0, 0, 0, 0xBF800000, 0, 0, 0, 0, 0x3F800000, 0, 0, 0x3F800000, 0, 0x3F800000]) (run [Resize \<lparr>rect_xp = 0, rect_yp = 0, rect_w = 320, rect_h = 240\<rparr>] (construct 42 \<lparr>rect_xp = 0, rect_yp = 0, rect_w = 640, rect_h = 480\<rparr>)))) = 1
   \<and> occurrences is_changed (env (run ([Resize \<lparr>rect_xp = 0, rect_yp = 0, rect_w = 320, rect_h = 240\<rparr>] @ Traverse 7 [0x3F800000, 0, 0, 0, 0, 0xBF800000, 0, 0, 0, 0, 0x3F800000, 0, 0, 0x3F800000, 0, 0x3F800000]
         # [FrameAvailable, Traverse 8 [0x3F800000, 0, 0, 0, 0, 0xBF800000, 0, 0, 0, 0, 0x3F800000, 0, 0, 0x3F800000, 0, 0x3F800000], Traverse 9 [0x3F800000, 0, 0, 0, 0, 0xBF800000, 0, 0, 0, 0, 0x3F800000, 0, 0, 0x3F800000, 0, 0x3F800000]]) (construct 42 \<lparr>rect_xp = 0, rect_yp = 0, rect_w = 640, rect_h = 480\<rparr>))) = 1"
proof -
  have h1: "\<not> list_ex is_traverse [Resize \<lparr>rect_xp = 0, rect_yp = 0, rect_w = 320, rect_h = 240\<rparr>]"
    by (simp add: is_traverse_def)
  have h2: "\<not> list_ex is_drop [FrameAvailable, Traverse 8 [0x3F800000, 0, 0, 0, 0, 0xBF800000, 0, 0, 0, 0, 0x3F800000, 0, 0, 0x3F800000, 0, 0x3F800000], Traverse 9 [0x3F800000, 0, 0, 0, 0, 0xBF800000, 0, 0, 0, 0, 0x3F800000, 0, 0, 0x3F800000, 0, 0x3F800000]]"
    by (simp add: is_drop_def)
  from surfaceTextureChanged_once [OF h1 h2, where ptr = 42 and r = "\<lparr>rect_xp = 0, rect_yp = 0, rect_w = 640, rect_h = 480\<rparr>" and T = "[0x3F800000, 0, 0, 0, 0, 0xBF800000, 0, 0, 0, 0, 0x3F800000, 0, 0, 0x3F800000, 0, 0x3F800000]" and t = 7
      and steps = "[]"] h1 h2
  show ?thesis by (simp add: Let_def)
qed

subsection \<open>C8: comparing two material states\<close>

text \<open>
  C8, as stated, fails in both directions. A state whose matrix holds the NaN
  \<open>0x7FC00000\<close> is bitwise equal to itself and compares as different; a matrix of
  \<open>-0.0\<close> and a matrix of \<open>+0.0\<close> differ in their bits and compare as equal.
\<close>

theorem State_compare_counterexample:
  "State_compare \<lparr>uSTMatrix = replicate 16 0x7FC00000, textureId = 0\<rparr>
        \<lparr>uSTMatrix = replicate 16 0x7FC00000, textureId = 0\<rparr> = - 1
   \<and> replicate 16 (0x80000000 :: jfloat) \<noteq> replicate 16 0
   \<and> State_compare \<lparr>uSTMatrix = replicate 16 0x80000000, textureId = 0\<rparr>
        \<lparr>uSTMatrix = replicate 16 0, textureId = 0\<rparr> = 0"
  by (simp add: State_compare_def QMatrix4x4_eq_def float_eq_def isnan_def iszero_def
      list_all2_iff)

text \<open>
  C8, amended. \<open>compare\<close> returns 0 exactly when the texture ids are equal and the
  entries of the two matrices are pairwise equal under the float comparison \<open>==\<close>.
  When no entry of either matrix is a NaN or the negative zero, that is equality of the
  bits of both fields.
\<close>

theorem State_compare_float_equality:
  "(State_compare s other = 0 \<longleftrightarrow>
      list_all2 float_eq (uSTMatrix s) (uSTMatrix other) \<and> textureId s = textureId other)
   \<and> (list_all plain (uSTMatrix s) \<and> list_all plain (uSTMatrix other) \<longrightarrow>
        (State_compare s other = 0 \<longleftrightarrow>
           uSTMatrix s = uSTMatrix other \<and> textureId s = textureId other))"
  by (auto simp: State_compare_def QMatrix4x4_eq_def list_all2_float_eq_plain)

theorem State_compare_float_equality_witness:
  "list_all plain QMatrix4x4_identity
   \<and> State_compare \<lparr>uSTMatrix = QMatrix4x4_identity, textureId = 7\<rparr>
        \<lparr>uSTMatrix = QMatrix4x4_identity, textureId = 7\<rparr> = 0
   \<and> State_compare \<lparr>uSTMatrix = QMatrix4x4_identity, textureId = 7\<rparr>
        \<lparr>uSTMatrix = QMatrix4x4_identity, textureId = 8\<rparr> \<noteq> 0"
proof -
  have p: "list_all plain QMatrix4x4_identity"
    by (simp add: QMatrix4x4_identity_def plain_def isnan_def float_one_def)
  from p State_compare_float_equality
    [of "\<lparr>uSTMatrix = QMatrix4x4_identity, textureId = 7\<rparr>"
        "\<lparr>uSTMatrix = QMatrix4x4_identity, textureId = 7\<rparr>"]
    State_compare_float_equality
    [of "\<lparr>uSTMatrix = QMatrix4x4_identity, textureId = 7\<rparr>"
        "\<lparr>uSTMatrix = QMatrix4x4_identity, textureId = 8\<rparr>"]
  show ?thesis by simp
qed

subsection \<open>C9: a node without material\<close>

text \<open>
  C9. When the node's material is null, \<open>preprocess\<close> returns at once: the node
  (its material state and its Java array included) and the world (no call of
  \<open>updateTexImage\<close> or \<open>getTransformMatrix\<close>) are what they were.
\<close>

theorem preprocess_null_material:
  "material n = None \<Longrightarrow> preprocess T n w = (n, w)"
  by (simp add: preprocess_def)

theorem preprocess_null_material_witness:
  "material ((fst (SurfaceTextureNode_new None 7 \<lparr>trace = [], queued = []\<rparr>))\<lparr>material := None\<rparr>) = None
   \<and> preprocess [0x3F800000, 0, 0, 0, 0, 0xBF800000, 0, 0, 0, 0, 0x3F800000, 0, 0, 0x3F800000, 0, 0x3F800000] ((fst (SurfaceTextureNode_new None 7 \<lparr>trace = [], queued = []\<rparr>))\<lparr>material := None\<rparr>) \<lparr>trace = [], queued = []\<rparr>
       = ((fst (SurfaceTextureNode_new None 7 \<lparr>trace = [], queued = []\<rparr>))\<lparr>material := None\<rparr>, \<lparr>trace = [], queued = []\<rparr>)"
proof -
  have h: "material ((fst (SurfaceTextureNode_new None 7 \<lparr>trace = [], queued = []\<rparr>))\<lparr>material := None\<rparr>) = None"
    by simp
  from preprocess_null_material [OF h] h show ?thesis by simp
qed

subsection \<open>C10: no deletion without a texture\<close>

text \<open>
  C10. The destructor of an item whose texture id is zero does nothing. An item that was
  never traversed still has the texture id zero, and its whole life, destructor
  included, makes no call at all. In every life of an item the destructor's
  \<open>glDeleteTextures\<close> calls are at most as many as the \<open>glGenTextures\<close> calls before.
\<close>

theorem destructor_without_texture:
  "(mTextureId it = 0 \<longrightarrow> QSurfaceTexture_delete it w = w)
   \<and> (\<not> list_ex is_traverse steps \<longrightarrow>
        mTextureId (item (run steps (construct ptr r))) = 0
        \<and> trace (teardown (run steps (construct ptr r))) = [])
   \<and> occurrences is_delete (teardown (run steps (construct ptr r)))
        \<le> occurrences is_gen (teardown (run steps (construct ptr r)))"
proof (intro conjI impI)
  assume "mTextureId it = 0"
  then show "QSurfaceTexture_delete it w = w" by (simp add: QSurfaceTexture_delete_def)
next
  assume "\<not> list_ex is_traverse steps"
  from unpainted_run [OF unpainted_construct this, where ptr1 = ptr and r1 = r]
  show "mTextureId (item (run steps (construct ptr r))) = 0"
    and "trace (teardown (run steps (construct ptr r))) = []"
    by (simp_all add: teardown_unpainted) (simp_all add: unpainted_def)
next
  have "guarded (run steps (construct ptr r))"
    by (rule guarded_run [OF guarded_construct])
  then show "occurrences is_delete (teardown (run steps (construct ptr r)))
          \<le> occurrences is_gen (teardown (run steps (construct ptr r)))"
    by (auto simp: guarded_def occurrences_teardown)
qed

theorem destructor_without_texture_witness:
  "mTextureId (QSurfaceTexture_new 42 \<lparr>rect_xp = 0, rect_yp = 0, rect_w = 640, rect_h = 480\<rparr>) = 0
   \<and> QSurfaceTexture_delete (QSurfaceTexture_new 42 \<lparr>rect_xp = 0, rect_yp = 0, rect_w = 640, rect_h = 480\<rparr>) \<lparr>trace = [], queued = []\<rparr> = \<lparr>trace = [], queued = []\<rparr>
   \<and> \<not> list_ex is_traverse [Resize \<lparr>rect_xp = 0, rect_yp = 0, rect_w = 320, rect_h = 240\<rparr>]
   \<and> trace (teardown (run [Resize \<lparr>rect_xp = 0, rect_yp = 0, rect_w = 320, rect_h = 240\<rparr>] (construct 42 \<lparr>rect_xp = 0, rect_yp = 0, rect_w = 640, rect_h = 480\<rparr>))) = []"
proof -
  have h1: "mTextureId (QSurfaceTexture_new 42 \<lparr>rect_xp = 0, rect_yp = 0, rect_w = 640, rect_h = 480\<rparr>) = 0"
    by (simp add: QSurfaceTexture_new_def)
  have h2: "\<not> list_ex is_traverse [Resize \<lparr>rect_xp = 0, rect_yp = 0, rect_w = 320, rect_h = 240\<rparr>]"
    by (simp add: is_traverse_def)
  from destructor_without_texture [where it = "QSurfaceTexture_new 42 \<lparr>rect_xp = 0, rect_yp = 0, rect_w = 640, rect_h = 480\<rparr>" and w = "\<lparr>trace = [], queued = []\<rparr>"
      and steps = "[Resize \<lparr>rect_xp = 0, rect_yp = 0, rect_w = 320, rect_h = 240\<rparr>]" and ptr = 42 and r = "\<lparr>rect_xp = 0, rect_yp = 0, rect_w = 640, rect_h = 480\<rparr>"] h1 h2
  show ?thesis by simp
qed

end
